theory Spec2Isabelle
  imports Main "HOL-Library.Multiset"
begin

section \<open>Data model of \<^verbatim>\<open>lib/report.go\<close>\<close>

text \<open>
  Go strings and byte slices are lists of 8-bit characters. A \<^verbatim>\<open>time.Time\<close> is an
  instant, counted in nanoseconds since the Unix epoch; a \<^verbatim>\<open>time.Duration\<close> is a
  number of nanoseconds. A Go slice is a list (a nil slice is the empty list), a Go map is
  a partial function (a nil map is the empty one), a pointer that may be nil is an option.

  Several Go structs use the same field names (\<^verbatim>\<open>ID\<close>, \<^verbatim>\<open>IPAddr\<close>, \<^verbatim>\<open>Country\<close>,
  \<^verbatim>\<open>Timestamp\<close>, ...). Record fields are constants of the theory, so the fields of the
  nested structs carry a prefix naming their struct: \<open>lh_\<close> for \<^verbatim>\<open>ReportLocalHost\<close>,
  \<open>rh_\<close> for \<^verbatim>\<open>ReportRemoteHost\<close>, \<open>su_\<close> for \<^verbatim>\<open>ReportServiceUsage\<close>, \<open>usr_\<close> for
  \<^verbatim>\<open>ReportUser\<close>, \<open>mw_\<close> for \<^verbatim>\<open>ReportMalware\<close>, \<open>scan_\<close> for \<^verbatim>\<open>ReportMalwareScan\<close>,
  \<open>dm_\<close> for \<^verbatim>\<open>ReportDomain\<close> and \<open>url_\<close> for \<^verbatim>\<open>ReportURL\<close>.
\<close>

type_synonym ReportID = string
type_synonym bytes = "char list"
type_synonym Time = int
type_synonym Duration = int

text \<open>
  Modelled from the spec: the struct \<^verbatim>\<open>lib.Alert\<close> is declared in a file that is not
  among the sources. The spec gives it a natural key and a rule identifier, both
  free-form strings; the receptor reads exactly these two fields.
\<close>

record Alert =
  Key :: string
  Rule :: string

record ReportResult =
  Severity :: string

record ReportServiceUsage =
  su_ServiceName :: string
  su_Principal :: string
  su_Action :: string
  su_LastSeen :: Time

record ReportUser =
  usr_UserName :: string
  usr_ServiceUsage :: "ReportServiceUsage list"

record ReportMalwareScan =
  scan_Vendor :: string
  scan_Name :: string
  scan_Positive :: bool
  scan_Source :: string

record ReportMalware =
  mw_SHA256 :: string
  mw_Timestamp :: Time
  mw_Scans :: "ReportMalwareScan list"
  mw_Relation :: string

record ReportDomain =
  dm_Name :: string
  dm_Timestamp :: Time
  dm_Source :: string

record ReportURL =
  url_URL :: string
  url_Timestamp :: Time
  url_Source :: string

record ReportLocalHost =
  lh_ID :: string
  lh_UserName :: "string list"
  lh_OS :: "string list"
  lh_IPAddr :: "string list"
  lh_Country :: "string list"
  lh_ServiceUsage :: "ReportServiceUsage list"

record ReportRemoteHost =
  rh_ID :: string
  rh_IPAddr :: "string list"
  rh_Country :: "string list"
  rh_ASOwner :: "string list"
  rh_RelatedMalware :: "ReportMalware list"
  rh_RelatedDomains :: "ReportDomain list"
  rh_RelatedURLs :: "ReportURL list"

record ReportContent =
  RemoteHosts :: "string \<rightharpoonup> ReportRemoteHost"
  LocalHosts :: "string \<rightharpoonup> ReportLocalHost"
  SubjectUsers :: "string \<rightharpoonup> ReportURL"

record ReportPage =
  Title :: string
  Text :: "string list"
  LocalHost :: "ReportLocalHost list"
  RemoteHost :: "ReportRemoteHost list"
  SubjectUser :: "ReportUser list"
  Author :: string

record Report =
  ID :: ReportID
  Alert :: Alert
  Content :: ReportContent
  Result :: "ReportResult option"
  Status :: string

record ReportComponent =
  ReportID :: ReportID
  DataID :: string
  Data :: bytes
  TimeToLive :: Time

subsection \<open>Zero values\<close>

text \<open>
  Go gives every field that a composite literal leaves out, and every value read from a
  map under a missing key, the zero value of its type.
\<close>

definition zero_ReportLocalHost :: ReportLocalHost where
  "zero_ReportLocalHost =
     \<lparr>lh_ID = [], lh_UserName = [], lh_OS = [], lh_IPAddr = [], lh_Country = [],
      lh_ServiceUsage = []\<rparr>"

definition zero_ReportRemoteHost :: ReportRemoteHost where
  "zero_ReportRemoteHost =
     \<lparr>rh_ID = [], rh_IPAddr = [], rh_Country = [], rh_ASOwner = [],
      rh_RelatedMalware = [], rh_RelatedDomains = [], rh_RelatedURLs = []\<rparr>"

definition zero_ReportContent :: ReportContent where
  "zero_ReportContent =
     \<lparr>RemoteHosts = Map.empty, LocalHosts = Map.empty, SubjectUsers = Map.empty\<rparr>"

definition NewReportPage :: ReportPage where
  "NewReportPage =
     \<lparr>Title = [], Text = [], LocalHost = [], RemoteHost = [], SubjectUser = [],
      Author = []\<rparr>"

subsection \<open>Merging hosts\<close>

text \<open>
  \<^verbatim>\<open>func (x *ReportLocalHost) Merge(s ReportLocalHost)\<close>: the receiver after the call.
  The first \<^verbatim>\<open>append\<close> of the source reads \<^verbatim>\<open>s.Country\<close>.
\<close>

definition ReportLocalHost_Merge :: "ReportLocalHost \<Rightarrow> ReportLocalHost \<Rightarrow> ReportLocalHost" where
  "ReportLocalHost_Merge x s =
     x\<lparr>lh_ID := lh_ID s,
       lh_UserName := lh_UserName x @ lh_Country s,
       lh_OS := lh_OS x @ lh_OS s,
       lh_IPAddr := lh_IPAddr x @ lh_IPAddr s,
       lh_Country := lh_Country x @ lh_Country s,
       lh_ServiceUsage := lh_ServiceUsage x @ lh_ServiceUsage s\<rparr>"

text \<open>\<^verbatim>\<open>func (x *ReportRemoteHost) Merge(s ReportRemoteHost)\<close>: the receiver after the call.\<close>

definition ReportRemoteHost_Merge :: "ReportRemoteHost \<Rightarrow> ReportRemoteHost \<Rightarrow> ReportRemoteHost" where
  "ReportRemoteHost_Merge x s =
     x\<lparr>rh_ID := rh_ID s,
       rh_IPAddr := rh_IPAddr x @ rh_IPAddr s,
       rh_Country := rh_Country x @ rh_Country s,
       rh_ASOwner := rh_ASOwner x @ rh_ASOwner s,
       rh_RelatedMalware := rh_RelatedMalware x @ rh_RelatedMalware s,
       rh_RelatedDomains := rh_RelatedDomains x @ rh_RelatedDomains s,
       rh_RelatedURLs := rh_RelatedURLs x @ rh_RelatedURLs s\<rparr>"

subsection \<open>Reports\<close>

text \<open>
  \<^verbatim>\<open>func NewReport(reportID ReportID, alert Alert) Report\<close>: the composite literal sets
  \<^verbatim>\<open>ID\<close> and \<^verbatim>\<open>Alert\<close>; \<^verbatim>\<open>Content\<close>, \<^verbatim>\<open>Result\<close> and \<^verbatim>\<open>Status\<close> keep their zero values.
\<close>

definition NewReport :: "ReportID \<Rightarrow> Alert \<Rightarrow> Report" where
  "NewReport reportID alert =
     \<lparr>ID = reportID, Alert = alert, Content = zero_ReportContent, Result = None,
      Status = []\<rparr>"


section \<open>Errors\<close>

text \<open>
  A Go \<^verbatim>\<open>error\<close> is either one that a called service returned, or one that
  \<^verbatim>\<open>errors.Wrap(err, msg)\<close> built around another. A function of the program ends by
  returning (with or without an error) or by a run-time panic; the only panic the modelled
  code can raise is the dereference of a nil pointer.
\<close>

datatype err = Err string | Wrap err string

datatype failure = Error err | NilPointerDereference

section \<open>Fragments: \<^verbatim>\<open>ReportComponent\<close>\<close>

text \<open>
  \<^verbatim>\<open>encoding/json\<close>, the clock and the DynamoDB table are not code of the repository:
  \<open>marshal\<close> and \<open>unmarshal\<close> stand for \<^verbatim>\<open>json.Marshal\<close> and \<^verbatim>\<open>json.Unmarshal\<close> at
  type \<^verbatim>\<open>ReportPage\<close>, \<open>now\<close> for the instant \<^verbatim>\<open>time.Now()\<close> returns, \<open>put\<close> for
  \<^verbatim>\<open>table.Put(x).Run()\<close> acting on the state \<open>'w\<close> of the store, and \<open>queryAll\<close> for
  \<^verbatim>\<open>table.Get("report_id", reportID).All(&dataList)\<close>.
\<close>

text \<open>
  \<^verbatim>\<open>func (x *ReportComponent) SetPage(page ReportPage)\<close>: a failure of
  \<^verbatim>\<open>json.Marshal\<close> is logged, and the (nil) data is stored all the same.
\<close>

definition SetPage :: "(ReportPage \<Rightarrow> err + bytes) \<Rightarrow> ReportComponent \<Rightarrow> ReportPage \<Rightarrow> ReportComponent" where
  "SetPage marshal x page =
     x\<lparr>Data := (case marshal page of Inl e \<Rightarrow> [] | Inr data \<Rightarrow> data)\<rparr>"

text \<open>\<^verbatim>\<open>func (x *ReportComponent) Page() *ReportPage\<close>: \<open>None\<close> is the nil pointer.\<close>

definition Page :: "(bytes \<Rightarrow> err + ReportPage) \<Rightarrow> ReportComponent \<Rightarrow> ReportPage option" where
  "Page unmarshal x =
     (if length (Data x) = 0 then None
      else (case unmarshal (Data x) of Inl e \<Rightarrow> None | Inr page \<Rightarrow> Some page))"

definition Second :: Duration where
  "Second = 1000000000"

text \<open>
  \<^verbatim>\<open>func (x *ReportComponent) Submit(tableName, region string) error\<close>: the returned
  error, the receiver after the call, and the store after the call.
\<close>

definition Submit ::
  "Time \<Rightarrow> (string \<Rightarrow> string \<Rightarrow> ReportComponent \<Rightarrow> 'w \<Rightarrow> err option \<times> 'w) \<Rightarrow>
   ReportComponent \<Rightarrow> string \<Rightarrow> string \<Rightarrow> 'w \<Rightarrow> err option \<times> ReportComponent \<times> 'w" where
  "Submit now put x tableName region w =
     (let x' = x\<lparr>TimeToLive := now + Second * 864000\<rparr>
      in (case put tableName region x' w of
            (Some e, w') \<Rightarrow> (Some (Wrap e ''Fail to put report data''), x', w')
          | (None, w') \<Rightarrow> (None, x', w')))"

text \<open>
  \<^verbatim>\<open>func FetchReportPages(tableName, region string, reportID ReportID) ([]*ReportPage, error)\<close>:
  the loop appends \<^verbatim>\<open>data.Page()\<close> for every fetched row, whatever it returned.
\<close>

definition FetchReportPages ::
  "(string \<Rightarrow> string \<Rightarrow> ReportID \<Rightarrow> err + ReportComponent list) \<Rightarrow> (bytes \<Rightarrow> err + ReportPage) \<Rightarrow>
   string \<Rightarrow> string \<Rightarrow> ReportID \<Rightarrow> err + ReportPage option list" where
  "FetchReportPages queryAll unmarshal tableName region reportID =
     (case queryAll tableName region reportID of
        Inl e \<Rightarrow> Inl (Wrap e ''Fail to fetch report data'')
      | Inr dataList \<Rightarrow> Inr (map (Page unmarshal) dataList))"

section \<open>The compiler: \<^verbatim>\<open>functions/compiler\<close>\<close>

record parameters =
  region :: string
  tableName :: string

text \<open>
  What the compiler calls outside the repository's sources: \<open>c_arnRegion\<close> is the outcome
  of \<^verbatim>\<open>lib.NewArnFromContext(ctx)\<close> followed by \<^verbatim>\<open>arn.Region()\<close>, \<open>c_getenv\<close> is
  \<^verbatim>\<open>os.Getenv\<close>.
\<close>

record compiler_env =
  c_arnRegion :: "err + string"
  c_getenv :: "string \<Rightarrow> string"
  c_queryAll :: "string \<Rightarrow> string \<Rightarrow> ReportID \<Rightarrow> err + ReportComponent list"
  c_unmarshal :: "bytes \<Rightarrow> err + ReportPage"

definition buildParameters :: "compiler_env \<Rightarrow> err + parameters" where
  "buildParameters env =
     (case c_arnRegion env of
        Inl e \<Rightarrow> Inl (Wrap e ''Fail to extract region from ARN'')
      | Inr r \<Rightarrow> Inr \<lparr>region = r, tableName = c_getenv env ''REPORT_DATA''\<rparr>)"

text \<open>
  The inner loops of \<^verbatim>\<open>HandleRequest\<close>: \<^verbatim>\<open>h, _ := c.RemoteHosts[r.ID]\<close> reads the zero
  value under a missing key, \<^verbatim>\<open>h.Merge(r)\<close> changes the copy, and
  \<^verbatim>\<open>c.RemoteHosts[r.ID] = h\<close> stores it.
\<close>

fun remote_loop :: "ReportRemoteHost list \<Rightarrow> (string \<rightharpoonup> ReportRemoteHost) \<Rightarrow> (string \<rightharpoonup> ReportRemoteHost)" where
  "remote_loop [] m = m"
| "remote_loop (r # rs) m =
     remote_loop rs
       (m(rh_ID r \<mapsto>
          ReportRemoteHost_Merge
            (case m (rh_ID r) of None \<Rightarrow> zero_ReportRemoteHost | Some h \<Rightarrow> h) r))"

fun local_loop :: "ReportLocalHost list \<Rightarrow> (string \<rightharpoonup> ReportLocalHost) \<Rightarrow> (string \<rightharpoonup> ReportLocalHost)" where
  "local_loop [] m = m"
| "local_loop (r # rs) m =
     local_loop rs
       (m(lh_ID r \<mapsto>
          ReportLocalHost_Merge
            (case m (lh_ID r) of None \<Rightarrow> zero_ReportLocalHost | Some h \<Rightarrow> h) r))"

text \<open>
  The outer loop, \<^verbatim>\<open>for _, page := range pages\<close>, over pointers to pages:
  \<^verbatim>\<open>page.RemoteHost\<close> on a nil pointer panics.
\<close>

fun page_loop :: "ReportPage option list \<Rightarrow> ReportContent \<Rightarrow> failure + ReportContent" where
  "page_loop [] c = Inr c"
| "page_loop (None # pages) c = Inl NilPointerDereference"
| "page_loop (Some page # pages) c =
     page_loop pages
       (c\<lparr>RemoteHosts := remote_loop (RemoteHost page) (RemoteHosts c),
          LocalHosts := local_loop (LocalHost page) (LocalHosts c)\<rparr>)"

text \<open>
  Lines 52 to 72 of \<^verbatim>\<open>HandleRequest\<close>, the compilation of the fetched pages into the
  content of the report: the two mappings are replaced by empty ones, then the pages are
  merged in.
\<close>

definition compile :: "ReportPage option list \<Rightarrow> Report \<Rightarrow> failure + Report" where
  "compile pages report =
     (case page_loop pages
             ((Content report)\<lparr>RemoteHosts := Map.empty, LocalHosts := Map.empty\<rparr>) of
        Inl f \<Rightarrow> Inl f
      | Inr c \<Rightarrow> Inr (report\<lparr>Content := c\<rparr>))"

text \<open>
  \<^verbatim>\<open>HandleRequest(ctx, report)\<close> of the compiler, which returns a pointer to the
  compiled report or an error.
\<close>

definition Compiler_HandleRequest :: "compiler_env \<Rightarrow> Report \<Rightarrow> failure + Report" where
  "Compiler_HandleRequest env report =
     (case buildParameters env of
        Inl e \<Rightarrow> Inl (Error e)
      | Inr params \<Rightarrow>
          (case FetchReportPages (c_queryAll env) (c_unmarshal env)
                  (tableName params) (region params) (ID report) of
             Inl e \<Rightarrow> Inl (Error e)
           | Inr pages \<Rightarrow> compile pages report))"

section \<open>The receptor\<close>












section \<open>Closed forms of the compilation\<close>

text \<open>
  What the compiler's loops have accumulated under a key \<open>k\<close> once they have merged the
  hosts \<open>hs\<close> that carry this key, in this order, into the zero value: every list is the
  concatenation of the hosts' lists. For a local host the user names are those that
  \<^const>\<open>ReportLocalHost_Merge\<close> appends, the hosts' countries.
\<close>

definition remote_entry :: "string \<Rightarrow> ReportRemoteHost list \<Rightarrow> ReportRemoteHost" where
  "remote_entry k hs =
     \<lparr>rh_ID = k,
      rh_IPAddr = concat (map rh_IPAddr hs),
      rh_Country = concat (map rh_Country hs),
      rh_ASOwner = concat (map rh_ASOwner hs),
      rh_RelatedMalware = concat (map rh_RelatedMalware hs),
      rh_RelatedDomains = concat (map rh_RelatedDomains hs),
      rh_RelatedURLs = concat (map rh_RelatedURLs hs)\<rparr>"

definition local_entry :: "string \<Rightarrow> ReportLocalHost list \<Rightarrow> ReportLocalHost" where
  "local_entry k hs =
     \<lparr>lh_ID = k,
      lh_UserName = concat (map lh_Country hs),
      lh_OS = concat (map lh_OS hs),
      lh_IPAddr = concat (map lh_IPAddr hs),
      lh_Country = concat (map lh_Country hs),
      lh_ServiceUsage = concat (map lh_ServiceUsage hs)\<rparr>"

text \<open>
  The mapping that a list of hosts amounts to: a key is bound when some host of the list
  carries it, to the entry accumulated from the hosts that do.
\<close>

definition remote_table :: "ReportRemoteHost list \<Rightarrow> (string \<rightharpoonup> ReportRemoteHost)" where
  "remote_table rs k =
     (case filter (\<lambda>r. rh_ID r = k) rs of
        [] \<Rightarrow> None
      | h # hs \<Rightarrow> Some (remote_entry k (h # hs)))"

definition local_table :: "ReportLocalHost list \<Rightarrow> (string \<rightharpoonup> ReportLocalHost)" where
  "local_table rs k =
     (case filter (\<lambda>r. lh_ID r = k) rs of
        [] \<Rightarrow> None
      | h # hs \<Rightarrow> Some (local_entry k (h # hs)))"

text \<open>The hosts of all the pages of a list, in the order the outer loop meets them.\<close>

definition all_remote :: "ReportPage option list \<Rightarrow> ReportRemoteHost list" where
  "all_remote pages = concat (map (case_option [] RemoteHost) pages)"

definition all_local :: "ReportPage option list \<Rightarrow> ReportLocalHost list" where
  "all_local pages = concat (map (case_option [] LocalHost) pages)"

subsection \<open>Observations without their order\<close>

text \<open>
  A host with every list read as a multiset: which observations it holds and how often,
  not in which order. A report read the same way: its identity, alert, result, status and
  subject users as they are, and both host mappings with every entry read as multisets.
\<close>

definition remote_bag ::
  "ReportRemoteHost \<Rightarrow>
   string \<times> string multiset \<times> string multiset \<times> string multiset \<times> ReportMalware multiset \<times>
   ReportDomain multiset \<times> ReportURL multiset" where
  "remote_bag h =
     (rh_ID h, mset (rh_IPAddr h), mset (rh_Country h), mset (rh_ASOwner h),
      mset (rh_RelatedMalware h), mset (rh_RelatedDomains h), mset (rh_RelatedURLs h))"

definition local_bag ::
  "ReportLocalHost \<Rightarrow>
   string \<times> string multiset \<times> string multiset \<times> string multiset \<times> string multiset \<times>
   ReportServiceUsage multiset" where
  "local_bag h =
     (lh_ID h, mset (lh_UserName h), mset (lh_OS h), mset (lh_IPAddr h), mset (lh_Country h),
      mset (lh_ServiceUsage h))"

definition report_bag where
  "report_bag r =
     (ID r, Alert r, Result r, Status r, SubjectUsers (Content r),
      map_option remote_bag \<circ> RemoteHosts (Content r),
      map_option local_bag \<circ> LocalHosts (Content r))"

section \<open>Concrete inputs\<close>

text \<open>
  The fragments of the spec's scenario B, two pages that observe the remote host
  \<open>8.8.8.8\<close>, and a third page that adds a second address to the same host.
\<close>

definition scenario_F1 :: ReportPage where
  "scenario_F1 =
     NewReportPage\<lparr>RemoteHost :=
       [zero_ReportRemoteHost\<lparr>rh_ID := ''8.8.8.8'', rh_IPAddr := [''8.8.8.8'']\<rparr>]\<rparr>"

definition scenario_F2 :: ReportPage where
  "scenario_F2 =
     NewReportPage\<lparr>RemoteHost :=
       [zero_ReportRemoteHost\<lparr>rh_ID := ''8.8.8.8'', rh_Country := [''US'']\<rparr>]\<rparr>"

definition scenario_F3 :: ReportPage where
  "scenario_F3 =
     NewReportPage\<lparr>RemoteHost :=
       [zero_ReportRemoteHost\<lparr>rh_ID := ''8.8.8.8'', rh_IPAddr := [''8.8.4.4'']\<rparr>]\<rparr>"

text \<open>
  A decoder that knows two payloads and rejects every other one, rows of the fragment
  table that carry a given payload, and a compiler environment whose table holds the
  given rows.
\<close>

definition example_unmarshal :: "bytes \<Rightarrow> err + ReportPage" where
  "example_unmarshal data =
     (if data = ''F1'' then Inr scenario_F1
      else if data = ''F2'' then Inr scenario_F2
      else Inl (Err ''invalid character''))"

definition example_component :: "bytes \<Rightarrow> ReportComponent" where
  "example_component data = \<lparr>ReportID = ''X'', DataID = data, Data = data, TimeToLive = 0\<rparr>"

definition example_compiler_env :: "ReportComponent list \<Rightarrow> compiler_env" where
  "example_compiler_env rows =
     \<lparr>c_arnRegion = Inr ''ap-northeast-1'',
      c_getenv = (\<lambda>name. name),
      c_queryAll = (\<lambda>table region reportID. Inr rows),
      c_unmarshal = example_unmarshal\<rparr>"

definition example_alert :: Alert where
  "example_alert = \<lparr>Key = ''10.0.0.1'', Rule = ''R1''\<rparr>"

definition example_report :: Report where
  "example_report = NewReport ''X'' example_alert"

definition example_url :: ReportURL where
  "example_url = \<lparr>url_URL = ''http://example.com/'', url_Timestamp = 0, url_Source = ''test''\<rparr>"

definition example_report_with_user :: Report where
  "example_report_with_user =
     example_report\<lparr>Content :=
       zero_ReportContent\<lparr>SubjectUsers := [''alice'' \<mapsto> example_url]\<rparr>\<rparr>"



section \<open>Constructing a report\<close>

text \<open>
  Claim C3. \<^verbatim>\<open>NewReport(id, a)\<close> returns a report whose identity is \<open>id\<close>, whose alert is
  \<open>a\<close>, whose content is empty and whose result is nil. Its status is the empty string:
  the constructor never assigns \<^verbatim>\<open>Status\<close>, so the status is not \<^verbatim>\<open>Received\<close>, one of
  the two values the comment on the struct requires.
\<close>

theorem NewReport_leaves_Status_empty:
  "NewReport reportID alert =
     \<lparr>ID = reportID, Alert = alert,
      Content = \<lparr>RemoteHosts = Map.empty, LocalHosts = Map.empty, SubjectUsers = Map.empty\<rparr>,
      Result = None, Status = ''''\<rparr>
   \<and> Status (NewReport reportID alert) \<noteq> ''Received''"
  by (simp add: NewReport_def zero_ReportContent_def)

section \<open>Merging a local host\<close>

text \<open>
  Claim C4. \<^verbatim>\<open>x.Merge(s)\<close> on local hosts appends the countries of \<open>s\<close>, not its user
  names, to the user names of \<open>x\<close>: merging a host with user name \<open>alice\<close> and country
  \<open>JP\<close> into the zero value leaves the user names \<open>[JP]\<close>.
\<close>

theorem ReportLocalHost_Merge_appends_Country_to_UserName:
  "lh_UserName (ReportLocalHost_Merge x s) = lh_UserName x @ lh_Country s
   \<and> lh_UserName
        (ReportLocalHost_Merge zero_ReportLocalHost
           (zero_ReportLocalHost\<lparr>lh_ID := ''pc1'', lh_UserName := [''alice''],
              lh_Country := [''JP'']\<rparr>))
       = [''JP'']"
  by (simp add: ReportLocalHost_Merge_def zero_ReportLocalHost_def)

section \<open>Fragments\<close>

text \<open>
  What \<^verbatim>\<open>Page()\<close> reads back after \<^verbatim>\<open>SetPage(page)\<close>, in terms of the encoder and the
  decoder: nil when the encoder failed or produced no bytes, else what the decoder makes
  of the encoder's bytes.
\<close>

lemma Page_SetPage:
  "Page unmarshal (SetPage marshal x page) =
     (case marshal page of
        Inl e \<Rightarrow> None
      | Inr data \<Rightarrow>
          (if data = [] then None
           else (case unmarshal data of Inl e \<Rightarrow> None | Inr page' \<Rightarrow> Some page')))"
  by (simp add: Page_def SetPage_def split: sum.splits)

text \<open>
  Claim C8. \<^verbatim>\<open>Submit\<close> sets the expiry of the component to the instant of the call plus
  ten days, which are 864000 seconds, and it is the component so stamped that is put into
  the table; the error of the put, if any, comes back wrapped.
\<close>

theorem Submit_stamps_ten_days:
  "TimeToLive (fst (snd (Submit now put x tbl rgn w))) = now + 10 * (24 * 60 * 60 * Second)
   \<and> 10 * (24 * 60 * 60 * Second) = 864000 * Second
   \<and> snd (snd (Submit now put x tbl rgn w))
       = snd (put tbl rgn (x\<lparr>TimeToLive := now + 864000 * Second\<rparr>) w)
   \<and> fst (Submit now put x tbl rgn w)
       = map_option (\<lambda>e. Wrap e ''Fail to put report data'')
           (fst (put tbl rgn (x\<lparr>TimeToLive := now + 864000 * Second\<rparr>) w))"
  by (simp add: Submit_def Let_def mult.commute split: prod.splits option.splits)

text \<open>
  Claim C1. A fragment whose payload is empty or does not decode is not left out of the
  fetched list: \<^verbatim>\<open>FetchReportPages\<close> returns a nil pointer in its place, and the
  compiler's loop panics on it instead of compiling the valid fragment.
\<close>

theorem FetchReportPages_keeps_nil_and_compile_panics:
  "FetchReportPages
       (\<lambda>table region reportID.
          Inr [example_component ''F1'', example_component ''{'', example_component []])
       example_unmarshal ''REPORT_DATA'' ''ap-northeast-1'' ''X''
     = Inr [Some scenario_F1, None, None]
   \<and> Compiler_HandleRequest
        (example_compiler_env
           [example_component ''F1'', example_component ''{'', example_component []])
        example_report
     = Inl NilPointerDereference"
  by (simp add: FetchReportPages_def Page_def Compiler_HandleRequest_def buildParameters_def
      compile_def example_unmarshal_def example_component_def example_compiler_env_def)

section \<open>The compilation in closed form\<close>

lemma remote_merge_entry:
  "rh_ID r = k \<Longrightarrow> ReportRemoteHost_Merge (remote_entry k hs) r = remote_entry k (hs @ [r])"
  by (simp add: ReportRemoteHost_Merge_def remote_entry_def)

lemma remote_merge_zero:
  "ReportRemoteHost_Merge zero_ReportRemoteHost r = remote_entry (rh_ID r) [r]"
  by (simp add: ReportRemoteHost_Merge_def remote_entry_def zero_ReportRemoteHost_def)

lemma local_merge_entry:
  "lh_ID r = k \<Longrightarrow> ReportLocalHost_Merge (local_entry k hs) r = local_entry k (hs @ [r])"
  by (simp add: ReportLocalHost_Merge_def local_entry_def)

lemma local_merge_zero:
  "ReportLocalHost_Merge zero_ReportLocalHost r = local_entry (lh_ID r) [r]"
  by (simp add: ReportLocalHost_Merge_def local_entry_def zero_ReportLocalHost_def)

lemma remote_table_if:
  "remote_table rs k =
     (if filter (\<lambda>r. rh_ID r = k) rs = [] then None
      else Some (remote_entry k (filter (\<lambda>r. rh_ID r = k) rs)))"
  by (simp add: remote_table_def split: list.splits)

lemma local_table_if:
  "local_table rs k =
     (if filter (\<lambda>r. lh_ID r = k) rs = [] then None
      else Some (local_entry k (filter (\<lambda>r. lh_ID r = k) rs)))"
  by (simp add: local_table_def split: list.splits)

lemma remote_table_Nil: "remote_table [] = Map.empty"
  by (rule ext) (simp add: remote_table_def)

lemma local_table_Nil: "local_table [] = Map.empty"
  by (rule ext) (simp add: local_table_def)

text \<open>
  The invariant of the inner loops: a mapping that is the table of the hosts merged so far
  becomes the table of those hosts followed by the hosts of the loop.
\<close>

lemma remote_loop_table:
  "remote_loop rs (remote_table done) = remote_table (done @ rs)"
proof (induction rs arbitrary: "done")
  case Nil
  show ?case by simp
next
  case (Cons r rs)
  have "(remote_table done)(rh_ID r \<mapsto>
          ReportRemoteHost_Merge
            (case remote_table done (rh_ID r) of None \<Rightarrow> zero_ReportRemoteHost | Some h \<Rightarrow> h) r)
        = remote_table (done @ [r])"
  proof (rule ext)
    fix k
    show "((remote_table done)(rh_ID r \<mapsto>
          ReportRemoteHost_Merge
            (case remote_table done (rh_ID r) of None \<Rightarrow> zero_ReportRemoteHost | Some h \<Rightarrow> h) r)) k
        = remote_table (done @ [r]) k"
      by (auto simp: remote_table_def remote_merge_zero remote_merge_entry split: list.splits)
  qed
  then show ?case using Cons.IH [of "done @ [r]"] by simp
qed

lemma local_loop_table:
  "local_loop rs (local_table done) = local_table (done @ rs)"
proof (induction rs arbitrary: "done")
  case Nil
  show ?case by simp
next
  case (Cons r rs)
  have "(local_table done)(lh_ID r \<mapsto>
          ReportLocalHost_Merge
            (case local_table done (lh_ID r) of None \<Rightarrow> zero_ReportLocalHost | Some h \<Rightarrow> h) r)
        = local_table (done @ [r])"
  proof (rule ext)
    fix k
    show "((local_table done)(lh_ID r \<mapsto>
          ReportLocalHost_Merge
            (case local_table done (lh_ID r) of None \<Rightarrow> zero_ReportLocalHost | Some h \<Rightarrow> h) r)) k
        = local_table (done @ [r]) k"
      by (auto simp: local_table_def local_merge_zero local_merge_entry split: list.splits)
  qed
  then show ?case using Cons.IH [of "done @ [r]"] by simp
qed

lemma page_loop_tables:
  "page_loop pages (c\<lparr>RemoteHosts := remote_table dr, LocalHosts := local_table dl\<rparr>) =
     (if None \<in> set pages then Inl NilPointerDereference
      else Inr (c\<lparr>RemoteHosts := remote_table (dr @ all_remote pages),
                  LocalHosts := local_table (dl @ all_local pages)\<rparr>))"
proof (induction pages arbitrary: dr dl)
  case Nil
  show ?case by (simp add: all_remote_def all_local_def)
next
  case (Cons p pages)
  show ?case
  proof (cases p)
    case None
    then show ?thesis by simp
  next
    case (Some page)
    have "page_loop (p # pages) (c\<lparr>RemoteHosts := remote_table dr, LocalHosts := local_table dl\<rparr>)
          = page_loop pages (c\<lparr>RemoteHosts := remote_table (dr @ RemoteHost page),
                                 LocalHosts := local_table (dl @ LocalHost page)\<rparr>)"
      by (simp add: Some remote_loop_table local_loop_table)
    then show ?thesis
      using Cons.IH [where dr = "dr @ RemoteHost page" and dl = "dl @ LocalHost page"]
      by (auto simp: Some all_remote_def all_local_def)
  qed
qed

text \<open>
  The compilation as a whole: it panics when a page is nil, and else replaces both host
  mappings by the tables of all the hosts of all the pages.
\<close>

lemma compile_tables:
  "compile pages report =
     (if None \<in> set pages then Inl NilPointerDereference
      else Inr (report\<lparr>Content := (Content report)
                  \<lparr>RemoteHosts := remote_table (all_remote pages),
                   LocalHosts := local_table (all_local pages)\<rparr>\<rparr>))"
  using page_loop_tables [where pages = pages and c = "Content report" and dr = "[]" and dl = "[]"]
  by (simp add: compile_def remote_table_Nil local_table_Nil)

lemma dom_remote_table: "dom (remote_table rs) = rh_ID ` set rs"
  by (auto simp: remote_table_if dom_def filter_empty_conv)

lemma dom_local_table: "dom (local_table rs) = lh_ID ` set rs"
  by (auto simp: local_table_if dom_def filter_empty_conv)

lemma all_remote_Some: "all_remote (map Some ps) = concat (map RemoteHost ps)"
  by (simp add: all_remote_def comp_def)

lemma all_local_Some: "all_local (map Some ps) = concat (map LocalHost ps)"
  by (simp add: all_local_def comp_def)

lemma remote_table_key: "remote_table rs k = Some h \<Longrightarrow> rh_ID h = k"
  by (auto simp: remote_table_if remote_entry_def split: if_splits)

lemma local_table_key: "local_table rs k = Some h \<Longrightarrow> lh_ID h = k"
  by (auto simp: local_table_if local_entry_def split: if_splits)

section \<open>One entry for every host\<close>

text \<open>
  Claim C6. Compiling the two fragments of scenario B, which observe the remote host
  \<open>8.8.8.8\<close> with its address and with its country, gives a single remote entry, under
  the key \<open>8.8.8.8\<close>, whose addresses are \<open>[8.8.8.8]\<close> and whose countries are \<open>[US]\<close>.
  In general, compiling pages binds in each host mapping exactly the identifiers that the
  hosts of the pages carry, each once, and a remote entry holds all the observations of
  the hosts with its identifier.
\<close>

theorem compile_one_entry_per_host:
  "(\<exists>rep. compile [Some scenario_F1, Some scenario_F2] report = Inr rep
      \<and> dom (RemoteHosts (Content rep)) = {''8.8.8.8''}
      \<and> RemoteHosts (Content rep) ''8.8.8.8'' =
          Some \<lparr>rh_ID = ''8.8.8.8'', rh_IPAddr = [''8.8.8.8''], rh_Country = [''US''],
                rh_ASOwner = [], rh_RelatedMalware = [], rh_RelatedDomains = [],
                rh_RelatedURLs = []\<rparr>)
   \<and> (\<exists>rep. compile (map Some ps) report = Inr rep
      \<and> dom (RemoteHosts (Content rep)) = rh_ID ` set (concat (map RemoteHost ps))
      \<and> dom (LocalHosts (Content rep)) = lh_ID ` set (concat (map LocalHost ps))
      \<and> RemoteHosts (Content rep) = remote_table (concat (map RemoteHost ps)))"
proof
  have "compile (map Some [scenario_F1, scenario_F2]) report =
          Inr (report\<lparr>Content := (Content report)
                 \<lparr>RemoteHosts := remote_table (concat (map RemoteHost [scenario_F1, scenario_F2])),
                  LocalHosts := local_table (concat (map LocalHost [scenario_F1, scenario_F2]))\<rparr>\<rparr>)"
    unfolding compile_tables all_remote_Some all_local_Some by auto
  then show "\<exists>rep. compile [Some scenario_F1, Some scenario_F2] report = Inr rep
      \<and> dom (RemoteHosts (Content rep)) = {''8.8.8.8''}
      \<and> RemoteHosts (Content rep) ''8.8.8.8'' =
          Some \<lparr>rh_ID = ''8.8.8.8'', rh_IPAddr = [''8.8.8.8''], rh_Country = [''US''],
                rh_ASOwner = [], rh_RelatedMalware = [], rh_RelatedDomains = [],
                rh_RelatedURLs = []\<rparr>"
    by (simp add: dom_remote_table remote_table_if remote_entry_def scenario_F1_def
        scenario_F2_def NewReportPage_def zero_ReportRemoteHost_def)
next
  have "compile (map Some ps) report =
          Inr (report\<lparr>Content := (Content report)
                 \<lparr>RemoteHosts := remote_table (concat (map RemoteHost ps)),
                  LocalHosts := local_table (concat (map LocalHost ps))\<rparr>\<rparr>)"
    unfolding compile_tables all_remote_Some all_local_Some by auto
  then show "\<exists>rep. compile (map Some ps) report = Inr rep
      \<and> dom (RemoteHosts (Content rep)) = rh_ID ` set (concat (map RemoteHost ps))
      \<and> dom (LocalHosts (Content rep)) = lh_ID ` set (concat (map LocalHost ps))
      \<and> RemoteHosts (Content rep) = remote_table (concat (map RemoteHost ps))"
    by (simp add: dom_remote_table dom_local_table)
qed

section \<open>Entries carry their key\<close>

lemma compile_key_identity:
  assumes "compile pages report = Inr rep"
  shows "(\<forall>k h. RemoteHosts (Content rep) k = Some h \<longrightarrow> rh_ID h = k)
       \<and> (\<forall>k h. LocalHosts (Content rep) k = Some h \<longrightarrow> lh_ID h = k)"
  using assms
  by (auto simp: compile_tables split: if_splits dest: remote_table_key local_table_key)

text \<open>
  Claim C10. In the report that the compiler's \<^verbatim>\<open>HandleRequest\<close> returns, every remote
  host and every local host of the content is stored under its own identifier.
\<close>

theorem HandleRequest_key_identity:
  assumes "Compiler_HandleRequest env report = Inr rep"
  shows "(\<forall>k h. RemoteHosts (Content rep) k = Some h \<longrightarrow> rh_ID h = k)
       \<and> (\<forall>k h. LocalHosts (Content rep) k = Some h \<longrightarrow> lh_ID h = k)"
proof -
  from assms obtain pages where "compile pages report = Inr rep"
    by (auto simp: Compiler_HandleRequest_def split: sum.splits)
  then show ?thesis by (rule compile_key_identity)
qed

text \<open>
  The request succeeds on the two fragments of scenario B, and the entry it stores under
  \<open>8.8.8.8\<close> carries that identifier.
\<close>

theorem HandleRequest_key_identity_witness:
  "\<exists>rep h. Compiler_HandleRequest
              (example_compiler_env [example_component ''F1'', example_component ''F2''])
              example_report = Inr rep
     \<and> RemoteHosts (Content rep) ''8.8.8.8'' = Some h \<and> rh_ID h = ''8.8.8.8''"
proof -
  let ?env = "example_compiler_env [example_component ''F1'', example_component ''F2'']"
  have "Compiler_HandleRequest ?env example_report =
          compile [Some scenario_F1, Some scenario_F2] example_report"
    by (simp add: Compiler_HandleRequest_def buildParameters_def FetchReportPages_def Page_def
        example_compiler_env_def example_component_def example_unmarshal_def)
  then obtain rep where run: "Compiler_HandleRequest ?env example_report = Inr rep"
    and ent: "RemoteHosts (Content rep) ''8.8.8.8'' \<noteq> None"
    using compile_tables [of "[Some scenario_F1, Some scenario_F2]" example_report]
    by (simp add: remote_table_if all_remote_def scenario_F1_def NewReportPage_def
        zero_ReportRemoteHost_def)
  from ent obtain h where h: "RemoteHosts (Content rep) ''8.8.8.8'' = Some h" by auto
  with HandleRequest_key_identity [OF run] have "rh_ID h = ''8.8.8.8''" by blast
  with run h show ?thesis by blast
qed

section \<open>Compiling without fragments\<close>

text \<open>
  Claim C7, as stated, fails on a report that arrives with subject users: with no
  fragment in the table the request returns the report as it came, subject users
  included.
\<close>

theorem HandleRequest_keeps_SubjectUsers_counterexample:
  "Compiler_HandleRequest (example_compiler_env []) example_report_with_user
     = Inr example_report_with_user
   \<and> SubjectUsers (Content example_report_with_user) ''alice'' = Some example_url"
  by (simp add: Compiler_HandleRequest_def buildParameters_def FetchReportPages_def compile_def
      example_compiler_env_def example_report_with_user_def example_report_def NewReport_def
      zero_ReportContent_def)

text \<open>
  Claim C7, amended. When the parameters can be built and the table holds no fragment of
  the report, the request succeeds and returns the report with both host mappings empty
  and the subject users of the incoming report unchanged; so all three mappings are empty
  when the incoming report has no subject users.
\<close>

theorem HandleRequest_no_fragments:
  assumes "buildParameters env = Inr params"
      and "c_queryAll env (tableName params) (region params) (ID report) = Inr []"
  shows "Compiler_HandleRequest env report =
           Inr (report\<lparr>Content :=
                  \<lparr>RemoteHosts = Map.empty, LocalHosts = Map.empty,
                   SubjectUsers = SubjectUsers (Content report)\<rparr>\<rparr>)
       \<and> (SubjectUsers (Content report) = Map.empty \<longrightarrow>
            Compiler_HandleRequest env report = Inr (report\<lparr>Content := zero_ReportContent\<rparr>))"
  using assms
  by (simp add: Compiler_HandleRequest_def FetchReportPages_def compile_def
      zero_ReportContent_def)

theorem HandleRequest_no_fragments_witness:
  "buildParameters (example_compiler_env []) =
     Inr \<lparr>region = ''ap-northeast-1'', tableName = ''REPORT_DATA''\<rparr>
   \<and> c_queryAll (example_compiler_env []) ''REPORT_DATA'' ''ap-northeast-1'' ''X'' = Inr []
   \<and> SubjectUsers (Content example_report) = Map.empty
   \<and> Compiler_HandleRequest (example_compiler_env []) example_report =
       Inr (example_report\<lparr>Content := zero_ReportContent\<rparr>)"
proof -
  have p: "buildParameters (example_compiler_env []) =
             Inr \<lparr>region = ''ap-northeast-1'', tableName = ''REPORT_DATA''\<rparr>"
    by (simp add: buildParameters_def example_compiler_env_def)
  have q: "c_queryAll (example_compiler_env [])
             (tableName \<lparr>region = ''ap-northeast-1'', tableName = ''REPORT_DATA''\<rparr>)
             (region \<lparr>region = ''ap-northeast-1'', tableName = ''REPORT_DATA''\<rparr>)
             (ID example_report) = Inr []"
    by (simp add: example_compiler_env_def)
  have s: "SubjectUsers (Content example_report) = Map.empty"
    by (simp add: example_report_def NewReport_def zero_ReportContent_def)
  show ?thesis
    using p q s HandleRequest_no_fragments [OF p q]
    by (simp add: example_report_def NewReport_def zero_ReportContent_def)
qed

section \<open>Page order\<close>

lemma mset_concat_map_cong:
  assumes "mset xs = mset ys"
  shows "mset (concat (map f xs)) = mset (concat (map f ys))"
proof -
  have "mset (concat (map f zs)) = sum_mset (image_mset (\<lambda>z. mset (f z)) (mset zs))" for zs
    by (induction zs) simp_all
  then show ?thesis by (simp add: assms)
qed

lemma remote_entry_bag_cong:
  assumes "mset hs = mset hs'"
  shows "remote_bag (remote_entry k hs) = remote_bag (remote_entry k hs')"
proof -
  note c = mset_concat_map_cong [OF assms]
  show ?thesis by (simp add: remote_bag_def remote_entry_def c)
qed

lemma local_entry_bag_cong:
  assumes "mset hs = mset hs'"
  shows "local_bag (local_entry k hs) = local_bag (local_entry k hs')"
proof -
  note c = mset_concat_map_cong [OF assms]
  show ?thesis by (simp add: local_bag_def local_entry_def c)
qed

lemma remote_table_bag_cong:
  assumes "mset rs = mset rs'"
  shows "map_option remote_bag (remote_table rs k) = map_option remote_bag (remote_table rs' k)"
proof -
  let ?hs = "filter (\<lambda>r. rh_ID r = k) rs" and ?hs' = "filter (\<lambda>r. rh_ID r = k) rs'"
  have m: "mset ?hs = mset ?hs'" using assms by simp
  then have e: "?hs = [] \<longleftrightarrow> ?hs' = []" by (metis mset_zero_iff)
  show ?thesis
    using e remote_entry_bag_cong [OF m, of k] by (simp add: remote_table_if)
qed

lemma local_table_bag_cong:
  assumes "mset rs = mset rs'"
  shows "map_option local_bag (local_table rs k) = map_option local_bag (local_table rs' k)"
proof -
  let ?hs = "filter (\<lambda>r. lh_ID r = k) rs" and ?hs' = "filter (\<lambda>r. lh_ID r = k) rs'"
  have m: "mset ?hs = mset ?hs'" using assms by simp
  then have e: "?hs = [] \<longleftrightarrow> ?hs' = []" by (metis mset_zero_iff)
  show ?thesis
    using e local_entry_bag_cong [OF m, of k] by (simp add: local_table_if)
qed

lemma example_compile_F1_F3:
  "map_sum id (\<lambda>r. map_option rh_IPAddr (RemoteHosts (Content r) ''8.8.8.8''))
     (compile [Some scenario_F1, Some scenario_F3] example_report)
   = Inr (Some [''8.8.8.8'', ''8.8.4.4''])"
  by (simp add: compile_def ReportRemoteHost_Merge_def scenario_F1_def scenario_F3_def
      NewReportPage_def zero_ReportRemoteHost_def)

lemma example_compile_F3_F1:
  "map_sum id (\<lambda>r. map_option rh_IPAddr (RemoteHosts (Content r) ''8.8.8.8''))
     (compile [Some scenario_F3, Some scenario_F1] example_report)
   = Inr (Some [''8.8.4.4'', ''8.8.8.8''])"
  by (simp add: compile_def ReportRemoteHost_Merge_def scenario_F1_def scenario_F3_def
      NewReportPage_def zero_ReportRemoteHost_def)

text \<open>
  Claim C2, as stated, fails: two pages that each give the host \<open>8.8.8.8\<close> an address
  compile to the addresses in the order of the pages, so swapping the pages changes the
  report.
\<close>

theorem compile_page_order_counterexample:
  "compile [Some scenario_F1, Some scenario_F3] example_report
     \<noteq> compile [Some scenario_F3, Some scenario_F1] example_report"
proof
  assume "compile [Some scenario_F1, Some scenario_F3] example_report
            = compile [Some scenario_F3, Some scenario_F1] example_report"
  then have "(Inr (Some [''8.8.8.8'', ''8.8.4.4'']) :: failure + string list option)
               = Inr (Some [''8.8.4.4'', ''8.8.8.8''])"
    using example_compile_F1_F3 example_compile_F3_F1 by simp
  then show False by simp
qed

text \<open>
  Claim C2, amended. Compiling a permutation of a list of pages gives the same outcome up
  to the order of the observations inside the lists of a host: the same failure, or a
  report with the same identifiers in both host mappings and, under each identifier, lists
  with the same elements as often.
\<close>

theorem compile_permutation_same_observations:
  assumes "mset pages' = mset pages"
  shows "map_sum id report_bag (compile pages' report)
           = map_sum id report_bag (compile pages report)"
proof -
  have n: "None \<in> set pages' \<longleftrightarrow> None \<in> set pages"
    using assms by (metis set_mset_mset)
  have r: "mset (all_remote pages') = mset (all_remote pages)"
    unfolding all_remote_def by (rule mset_concat_map_cong [OF assms])
  have l: "mset (all_local pages') = mset (all_local pages)"
    unfolding all_local_def by (rule mset_concat_map_cong [OF assms])
  have rb: "map_option remote_bag \<circ> remote_table (all_remote pages')
            = map_option remote_bag \<circ> remote_table (all_remote pages)"
    by (rule ext) (simp add: remote_table_bag_cong [OF r])
  have lb: "map_option local_bag \<circ> local_table (all_local pages')
            = map_option local_bag \<circ> local_table (all_local pages)"
    by (rule ext) (simp add: local_table_bag_cong [OF l])
  show ?thesis
    using n rb lb by (simp add: compile_tables report_bag_def)
qed

theorem compile_permutation_same_observations_witness:
  "mset [Some scenario_F3, Some scenario_F1] = mset [Some scenario_F1, Some scenario_F3]
   \<and> map_sum id report_bag (compile [Some scenario_F3, Some scenario_F1] example_report)
     = map_sum id report_bag (compile [Some scenario_F1, Some scenario_F3] example_report)"
proof -
  have m: "mset [Some scenario_F3, Some scenario_F1] = mset [Some scenario_F1, Some scenario_F3]"
    by (simp add: add_mset_commute)
  show ?thesis
    using m compile_permutation_same_observations [OF m, of example_report] by simp
qed

section \<open>A failing alert in a batch\<close>










end
